theory Spec2Isabelle
  imports Complex_Main
begin

section \<open>Values, errors and arrays\<close>

text \<open>
  The simulator is Python over numpy arrays of 64-bit floats. Array cells are modelled as
  real numbers, so the theorems on cell values hold up to rounding. A call of the source
  has three kinds of end here. \<open>Raise\<close>: it raises a Python exception. \<open>Return\<close>: it
  returns finite values. \<open>NonFinite\<close>: a NaN or an infinity has been produced (numpy only
  warns on a division by zero and goes on); no real-valued array describes that, and
  what the source does from there on is not modelled.
\<close>

datatype error = ZeroDivisionError | OverflowError | ValueError | IndexError

datatype 'a outcome = Raise error | NonFinite | Return 'a

fun bind :: "'a outcome \<Rightarrow> ('a \<Rightarrow> 'b outcome) \<Rightarrow> 'b outcome" where
  "bind (Raise e) f = Raise e"
| "bind NonFinite f = NonFinite"
| "bind (Return x) f = f x"

text \<open>
  A two-dimensional array is the list of its rows; \<open>g ! i ! j\<close> is numpy's \<open>g[i, j]\<close>.
  An array without rows is taken to have no columns either.
\<close>

type_synonym grid = "real list list"

definition nrows :: "grid \<Rightarrow> nat" where
  "nrows g = length g"

definition ncols :: "grid \<Rightarrow> nat" where
  "ncols g = (case g of [] \<Rightarrow> 0 | r # _ \<Rightarrow> length r)"

definition tabulate2 :: "nat \<Rightarrow> nat \<Rightarrow> (nat \<Rightarrow> nat \<Rightarrow> 'a) \<Rightarrow> 'a list list" where
  "tabulate2 r c f = map (\<lambda>i. map (\<lambda>j. f i j) [0..<c]) [0..<r]"

definition np_zeros :: "nat \<Rightarrow> nat \<Rightarrow> grid" where
  "np_zeros r c = tabulate2 r c (\<lambda>i j. 0)"

definition np_sum :: "grid \<Rightarrow> real" where
  "np_sum g = sum_list (map sum_list g)"

subsection \<open>Broadcasting\<close>

text \<open>
  numpy combines two arrays cell by cell when, on each axis, their extents are equal or
  one of them is 1 (that operand is then repeated along the axis); otherwise the
  operation raises ValueError.
\<close>

definition bdim :: "nat \<Rightarrow> nat \<Rightarrow> nat option" where
  "bdim a b = (if a = b then Some a else if a = 1 then Some b
               else if b = 1 then Some a else None)"

definition bidx :: "nat \<Rightarrow> nat \<Rightarrow> nat" where
  "bidx n i = (if n = 1 then 0 else i)"

definition bcell :: "grid \<Rightarrow> nat \<Rightarrow> nat \<Rightarrow> real" where
  "bcell A i j = A ! bidx (nrows A) i ! bidx (ncols A) j"

definition broadcast2 :: "(real \<Rightarrow> real \<Rightarrow> real) \<Rightarrow> grid \<Rightarrow> grid \<Rightarrow> grid outcome" where
  "broadcast2 f A B =
     (case bdim (nrows A) (nrows B) of
        None \<Rightarrow> Raise ValueError
      | Some r \<Rightarrow>
          (case bdim (ncols A) (ncols B) of
             None \<Rightarrow> Raise ValueError
           | Some c \<Rightarrow> Return (tabulate2 r c (\<lambda>i j. f (bcell A i j) (bcell B i j)))))"

section \<open>The time configuration\<close>

text \<open>
  \<open>time_bins = int(trial_duration / bin_size)\<close> divides two Python floats and truncates
  the quotient. The integer that comes out depends on the rounding of the division, so
  this one computation is modelled in binary64 exactly: a float is the real number it
  denotes, \<open>round_double\<close> is round-to-nearest-even to 53 significant bits (with the
  fixed spacing of the subnormal range below \<open>2 powi (-1022)\<close>), and a quotient that rounds
  to \<open>2 powi 1024\<close> or more is an infinity, which \<open>int\<close> refuses with OverflowError.
  Division by a zero float raises ZeroDivisionError.
\<close>

fun binade :: "nat \<Rightarrow> real \<Rightarrow> int \<Rightarrow> int" where
  "binade 0 q e = e"
| "binade (Suc k) q e =
     (if 2 \<le> q then binade k (q / 2) (e + 1)
      else if q < 1 then binade k (q * 2) (e - 1)
      else e)"

definition round_half_even :: "real \<Rightarrow> int" where
  "round_half_even x =
     (let f = \<lfloor>x\<rfloor>; r = x - of_int f
      in if r < 1 / 2 then f
         else if 1 / 2 < r then f + 1
         else if even f then f else f + 1)"

definition round_double :: "real \<Rightarrow> real" where
  "round_double q =
     (if q = 0 then 0
      else let e = max (binade 2200 \<bar>q\<bar> 0) (- 1022);
               u = 2 powi (e - 52)
           in sgn q * of_int (round_half_even (\<bar>q\<bar> / u)) * u)"

definition py_int :: "real \<Rightarrow> int" where
  "py_int q = (if 0 \<le> q then \<lfloor>q\<rfloor> else \<lceil>q\<rceil>)"

definition time_bins :: "real \<Rightarrow> real \<Rightarrow> int outcome" where
  "time_bins trial_duration bin_size =
     (if bin_size = 0 then Raise ZeroDivisionError
      else let q = round_double (trial_duration / bin_size)
           in if 2 powi 1024 \<le> \<bar>q\<bar> then Raise OverflowError
              else Return (py_int q))"


section \<open>Stimulus generators\<close>

text \<open>
  A cell that the source computes through a division by zero is \<open>None\<close>; an array with
  such a cell is \<open>NonFinite\<close>.
\<close>

definition finite_grid :: "real option list list \<Rightarrow> grid outcome" where
  "finite_grid g =
     (if list_all (list_all (\<lambda>v. v \<noteq> None)) g then Return (map (map the) g)
      else NonFinite)"

definition deg2rad :: "real \<Rightarrow> real" where
  "deg2rad d = d * pi / 180"

subsection \<open>VisualStimulus\<close>

record VisualStimulus =
  orientation :: real
  spatial_frequency :: real
  contrast :: real
  stim_size :: real
  onset :: real

text \<open>\<open>np.linspace(-1, 1, num)[j]\<close>; a single sample is the start value.\<close>

definition linspace :: "nat \<Rightarrow> nat \<Rightarrow> real" where
  "linspace num j = (if num = 1 then - 1 else - 1 + real j * (2 / real (num - 1)))"

text \<open>
  One cell of \<open>contrast * (exp(-(x**2 + y**2) / (2 * size**2)) * cos(2 * pi * f * x_theta))\<close>.
  With \<open>size = 0\<close> the quotient is \<open>0/0\<close> where \<open>x = y = 0\<close> and \<open>-inf\<close> elsewhere, whose
  exponential is 0.
\<close>

definition gabor_cell :: "VisualStimulus \<Rightarrow> real \<Rightarrow> real \<Rightarrow> real option" where
  "gabor_cell vs x y =
     (let theta = deg2rad (orientation vs);
          x_theta = x * cos theta + y * sin theta
      in if stim_size vs = 0
         then (if x\<^sup>2 + y\<^sup>2 = 0 then None else Some 0)
         else Some (contrast vs *
                (exp (- (x\<^sup>2 + y\<^sup>2) / (2 * (stim_size vs)\<^sup>2)) *
                 cos (2 * pi * spatial_frequency vs * x_theta))))"

definition visual_generate_input :: "VisualStimulus \<Rightarrow> nat \<times> nat \<Rightarrow> grid outcome" where
  "visual_generate_input vs grid_size =
     (case grid_size of (rows, cols) \<Rightarrow>
        finite_grid (tabulate2 rows cols
          (\<lambda>i j. gabor_cell vs (linspace cols j) (linspace rows i))))"

subsection \<open>OptogeneticStimulus\<close>

record OptogeneticStimulus =
  column_tuning :: real
  num_columns :: nat
  column_area :: real
  light_power :: real

text \<open>
  The mask is compared with \<open>==\<close>, scaled by the power and divided by its maximum when
  that is positive. \<open>np.max\<close> of an array without cells raises ValueError. The
  \<open>grid_size\<close> argument is only unpacked; the result has the shape of the orientation map.
\<close>

definition np_max :: "real \<Rightarrow> real list \<Rightarrow> real" where
  "np_max v vs = fold max vs v"

definition opto_generate_input ::
    "OptogeneticStimulus \<Rightarrow> nat \<times> nat \<Rightarrow> grid \<Rightarrow> grid outcome" where
  "opto_generate_input os grid_size orientation_map =
     (let mask = map (map (\<lambda>v. if v = column_tuning os then 1 else 0)) orientation_map;
          opto_input = map (map (\<lambda>b. b * light_power os)) mask
      in case concat opto_input of
           [] \<Rightarrow> Raise ValueError
         | v # vs \<Rightarrow>
             (if 0 < np_max v vs
              then Return (map (map (\<lambda>x. x / np_max v vs)) opto_input)
              else Return opto_input))"

section \<open>The SSN model\<close>

record SSNModel =
  orientation_map :: grid
  grid_size :: "nat \<times> nat"
  sigma_e :: real
  sigma_i :: real
  alpha :: real
  exponent :: real
  exc_conn :: grid
  inh_conn :: grid

subsection \<open>Connectivity kernels\<close>

text \<open>
  One cell of \<open>exp(-distances**2 / (2 * sigma**2))\<close>. With \<open>sigma = 0\<close> the quotient is
  \<open>0/0\<close> at distance 0 and \<open>-inf\<close> elsewhere.
\<close>

definition gauss_cell :: "real \<Rightarrow> real \<Rightarrow> real option" where
  "gauss_cell sigma d =
     (if sigma = 0 then (if d\<^sup>2 = 0 then None else Some 0)
      else Some (exp (- d\<^sup>2 / (2 * sigma\<^sup>2))))"

definition unnormalized_kernel :: "real \<Rightarrow> grid \<Rightarrow> grid \<Rightarrow> grid outcome" where
  "unnormalized_kernel sigma distances orientation_similarity =
     bind (finite_grid (map (map (gauss_cell sigma)) distances))
       (\<lambda>g. broadcast2 (*) g orientation_similarity)"

text \<open>\<open>kernel /= np.sum(kernel)\<close>: no check of the sum; dividing by 0 gives NaN or infinity.\<close>

definition normalize_kernel :: "grid \<Rightarrow> grid outcome" where
  "normalize_kernel k =
     (if np_sum k = 0 then NonFinite
      else Return (map (map (\<lambda>v. v / np_sum k)) k))"

text \<open>
  \<open>np.meshgrid(np.arange(size_x), np.arange(size_y))\<close> has shape \<open>(size_y, size_x)\<close> with
  \<open>x[i, j] = j\<close> and \<open>y[i, j] = i\<close>, while the similarity has the shape
  \<open>(size_x, size_y)\<close> of the map: their product is a broadcast. Reading the centre of a
  map without cells raises IndexError.
\<close>

definition distances_grid :: "nat \<Rightarrow> nat \<Rightarrow> grid" where
  "distances_grid size_x size_y =
     tabulate2 size_y size_x
       (\<lambda>i j. sqrt ((real j - real (size_x div 2))\<^sup>2 + (real i - real (size_y div 2))\<^sup>2))"

definition similarity_grid :: "grid \<Rightarrow> grid" where
  "similarity_grid om =
     (let c = om ! (nrows om div 2) ! (ncols om div 2);
          orientation_diff = map (map (\<lambda>v. \<bar>v - c\<bar>)) om
      in map (map (\<lambda>d. (cos (deg2rad d))\<^sup>2)) orientation_diff)"

definition unnormalized_kernels :: "grid \<Rightarrow> real \<Rightarrow> real \<Rightarrow> (grid \<times> grid) outcome" where
  "unnormalized_kernels om se si =
     (if nrows om = 0 \<or> ncols om = 0 then Raise IndexError
      else
        bind (unnormalized_kernel se (distances_grid (nrows om) (ncols om)) (similarity_grid om))
          (\<lambda>excitatory_kernel.
        bind (unnormalized_kernel si (distances_grid (nrows om) (ncols om)) (similarity_grid om))
          (\<lambda>inhibitory_kernel. Return (excitatory_kernel, inhibitory_kernel))))"

definition create_ssn_connectivity :: "grid \<Rightarrow> real \<Rightarrow> real \<Rightarrow> (grid \<times> grid) outcome" where
  "create_ssn_connectivity om se si =
     bind (unnormalized_kernels om se si)
       (\<lambda>(excitatory_kernel, inhibitory_kernel).
          bind (normalize_kernel excitatory_kernel) (\<lambda>e.
          bind (normalize_kernel inhibitory_kernel) (\<lambda>i. Return (e, i))))"

definition SSNModel_init ::
    "grid \<Rightarrow> nat \<times> nat \<Rightarrow> real \<Rightarrow> real \<Rightarrow> real \<Rightarrow> real \<Rightarrow> SSNModel outcome" where
  "SSNModel_init om sz se si al n =
     bind (create_ssn_connectivity om se si)
       (\<lambda>(e, i). Return \<lparr>orientation_map = om, grid_size = sz, sigma_e = se, sigma_i = si,
                         alpha = al, exponent = n, exc_conn = e, inh_conn = i\<rparr>)"


subsection \<open>Transfer function and opsin scaling\<close>

text \<open>
  \<open>b ** e\<close> for a base \<open>b \<ge> 0\<close> as numpy computes it: \<open>0 ** 0 = 1\<close>, and \<open>0\<close> to a negative
  power is an infinity.
\<close>

definition np_power :: "real \<Rightarrow> real \<Rightarrow> real option" where
  "np_power b e =
     (if b = 0 then (if e = 0 then Some 1 else if 0 < e then Some 0 else None)
      else Some (b powr e))"

definition supralinear_transfer_function :: "SSNModel \<Rightarrow> grid \<Rightarrow> grid outcome" where
  "supralinear_transfer_function self input_current =
     finite_grid (map (map (\<lambda>x. np_power (max 0 x) (exponent self))) input_current)"

definition apply_opsin_map :: "grid \<Rightarrow> grid \<Rightarrow> grid outcome" where
  "apply_opsin_map opto_input opsin_map = broadcast2 (*) opto_input opsin_map"

subsection \<open>Periodic convolution\<close>

text \<open>
  \<open>convolve2d(activity, kernel, mode='same', boundary='wrap')\<close> of scipy: the full
  convolution with circular boundary conditions, cut to the shape of the activity and
  centred, that is, output cell \<open>(m, n)\<close> reads the activity at
  \<open>(m + (Kr - 1) div 2 - j, n + (Kc - 1) div 2 - k)\<close>, taken modulo the extents of the
  activity, for every kernel cell \<open>(j, k)\<close>.
\<close>

definition wrap :: "nat \<Rightarrow> nat \<Rightarrow> nat \<Rightarrow> nat \<Rightarrow> nat" where
  "wrap ext kext m j = nat ((int m + int ((kext - 1) div 2) - int j) mod int ext)"

definition convolve_with_kernel :: "grid \<Rightarrow> grid \<Rightarrow> grid" where
  "convolve_with_kernel activity k =
     tabulate2 (nrows activity) (ncols activity)
       (\<lambda>m n. \<Sum>j\<leftarrow>[0..<nrows k]. \<Sum>l\<leftarrow>[0..<ncols k].
                 activity ! wrap (nrows activity) (nrows k) m j
                          ! wrap (ncols activity) (ncols k) n l * (k ! j ! l))"

subsection \<open>Running a trial\<close>

text \<open>
  The trace is the three-dimensional array \<open>activity[x, y, t]\<close>. Storing a time bin,
  \<open>activity[:, :, t] = current_activity\<close>, needs a value whose extents are those of the
  grid or 1, and raises ValueError otherwise.
\<close>

type_synonym trace = "real list list list"

definition np_zeros3 :: "nat \<Rightarrow> nat \<Rightarrow> nat \<Rightarrow> trace" where
  "np_zeros3 w h t = tabulate2 w h (\<lambda>x y. replicate t 0)"

definition set_slice :: "nat \<times> nat \<Rightarrow> trace \<Rightarrow> nat \<Rightarrow> grid \<Rightarrow> trace outcome" where
  "set_slice sz activity t cur =
     (case sz of (w, h) \<Rightarrow>
        if (nrows cur = w \<or> nrows cur = 1) \<and> (ncols cur = h \<or> ncols cur = 1)
        then Return (tabulate2 w h (\<lambda>x y. (activity ! x ! y)[t := bcell cur x y]))
        else Raise ValueError)"

text \<open>One pass of the body of \<open>for t in range(time_bins)\<close>.\<close>

definition trial_step ::
    "SSNModel \<Rightarrow> grid \<Rightarrow> grid \<Rightarrow> nat \<Rightarrow> grid \<times> trace \<Rightarrow> (grid \<times> trace) outcome" where
  "trial_step self visual_input opto_input t st =
     (case st of (current_activity, activity) \<Rightarrow>
        let recurrent_exc = convolve_with_kernel current_activity (exc_conn self);
            recurrent_inh = convolve_with_kernel current_activity (inh_conn self)
        in bind (broadcast2 (+) visual_input opto_input) (\<lambda>s1.
           bind (broadcast2 (+) s1 recurrent_exc) (\<lambda>s2.
           bind (broadcast2 (-) s2 recurrent_inh) (\<lambda>total_input.
           bind (supralinear_transfer_function self total_input) (\<lambda>cur.
           bind (set_slice (grid_size self) activity t cur) (\<lambda>act.
           Return (cur, act)))))))"

fun trial_loop ::
    "SSNModel \<Rightarrow> grid \<Rightarrow> grid \<Rightarrow> nat \<Rightarrow> nat \<Rightarrow> grid \<times> trace \<Rightarrow> trace outcome" where
  "trial_loop self visual_input opto_input 0 t st = Return (snd st)"
| "trial_loop self visual_input opto_input (Suc k) t st =
     bind (trial_step self visual_input opto_input t st)
       (\<lambda>st'. trial_loop self visual_input opto_input k (Suc t) st')"

text \<open>
  The optogenetic drive of a trial: the generated input, scaled by the opsin map when one
  is given.
\<close>

definition opto_drive :: "SSNModel \<Rightarrow> OptogeneticStimulus \<Rightarrow> grid option \<Rightarrow> grid outcome" where
  "opto_drive self opto_stim opsin_map =
     bind (opto_generate_input opto_stim (grid_size self) (orientation_map self))
       (\<lambda>opto_input. case opsin_map of None \<Rightarrow> Return opto_input
                                    | Some om \<Rightarrow> apply_opsin_map opto_input om)"

text \<open>
  \<open>run_trial\<close>: the number of time bins, the empty trace (\<open>np.zeros\<close> raises ValueError on
  a negative extent), the two stimulus frames, and the loop from the all-zero state.
\<close>

definition run_trial ::
    "SSNModel \<Rightarrow> VisualStimulus \<Rightarrow> OptogeneticStimulus \<Rightarrow> real \<Rightarrow> real \<Rightarrow> grid option
       \<Rightarrow> trace outcome" where
  "run_trial self visual_stim opto_stim trial_duration bin_size opsin_map =
     bind (time_bins trial_duration bin_size) (\<lambda>tb.
       if tb < 0 then Raise ValueError
       else
         bind (visual_generate_input visual_stim (grid_size self)) (\<lambda>visual_input.
         bind (opto_drive self opto_stim opsin_map) (\<lambda>opto_input.
         trial_loop self visual_input opto_input (nat tb) 0
           (np_zeros (fst (grid_size self)) (snd (grid_size self)),
            np_zeros3 (fst (grid_size self)) (snd (grid_size self)) (nat tb)))))"

text \<open>
  Shapes: an array of \<open>r\<close> rows of \<open>c\<close> cells each, and a trace of \<open>w\<close> by \<open>h\<close> cells of
  \<open>n\<close> time bins each.
\<close>

definition has_shape :: "nat \<Rightarrow> nat \<Rightarrow> grid \<Rightarrow> bool" where
  "has_shape r c g = (length g = r \<and> list_all (\<lambda>row. length row = c) g)"



section \<open>Circular shift\<close>

text \<open>
  The circular shift of an array by \<open>s\<close> rows and \<open>t\<close> columns (numpy's
  \<open>np.roll(a, (s, t), axis=(0, 1))\<close>): cell \<open>(i, j)\<close> of the result is cell
  \<open>(i - s, j - t)\<close> of the array, modulo its extents.
\<close>

definition circular_shift :: "int \<Rightarrow> int \<Rightarrow> grid \<Rightarrow> grid" where
  "circular_shift s t a =
     tabulate2 (nrows a) (ncols a)
       (\<lambda>i j. a ! nat ((int i - s) mod int (nrows a)) ! nat ((int j - t) mod int (ncols a)))"

section \<open>Small configurations\<close>

text \<open>
  Concrete inputs on which the definitions are evaluated below: an engine on a grid of
  one cell with both kernels \<open>[[1]]\<close> and a given exponent, a visual stimulus of
  contrast 0, and an optogenetic stimulus tuned to 0 degrees with a given power.
\<close>

definition unit_engine :: "real \<Rightarrow> SSNModel" where
  "unit_engine n =
     \<lparr>orientation_map = [[0]], grid_size = (1, 1), sigma_e = 8, sigma_i = 4, alpha = 1,
      exponent = n, exc_conn = [[1]], inh_conn = [[1]]\<rparr>"

definition dark_visual :: VisualStimulus where
  "dark_visual =
     \<lparr>orientation = 0, spatial_frequency = 2, contrast = 0, stim_size = 2, onset = 0\<rparr>"

definition opto_of_power :: "real \<Rightarrow> OptogeneticStimulus" where
  "opto_of_power p = \<lparr>column_tuning = 0, num_columns = 10, column_area = 50, light_power = p\<rparr>"

section \<open>The cells of a kernel\<close>

text \<open>
  The value that the unnormalized kernel of spread \<open>sigma\<close> has at cell \<open>(i, j)\<close> on a
  square orientation field: the Gaussian of the distance to the centre times the squared
  cosine of the orientation difference to the centre (lemma \<open>unnormalized_kernel_square\<close>).
\<close>

definition kernel_cell :: "grid \<Rightarrow> real \<Rightarrow> nat \<Rightarrow> nat \<Rightarrow> real" where
  "kernel_cell om sigma i j =
     exp (- (sqrt ((real j - real (nrows om div 2))\<^sup>2 + (real i - real (ncols om div 2))\<^sup>2))\<^sup>2
            / (2 * sigma\<^sup>2))
     * (cos (deg2rad \<bar>om ! i ! j - om ! (nrows om div 2) ! (ncols om div 2)\<bar>))\<^sup>2"

section \<open>Facts about arrays\<close>

lemma length_tabulate2 [simp]: "length (tabulate2 r c f) = r"
  by (simp add: tabulate2_def)

lemma nth_tabulate2 [simp]: "i < r \<Longrightarrow> tabulate2 r c f ! i = map (f i) [0..<c]"
  by (simp add: tabulate2_def)

lemma nrows_tabulate2 [simp]: "nrows (tabulate2 r c f) = r"
  by (simp add: nrows_def)

lemma ncols_tabulate2: "ncols (tabulate2 r c f) = (if r = 0 then 0 else c)"
  by (cases r) (simp_all add: ncols_def tabulate2_def upt_conv_Cons del: upt_Suc)

lemma ncols_zero_rows: "nrows a = 0 \<Longrightarrow> ncols a = 0"
  by (simp add: nrows_def ncols_def)

lemma ncols_tabulate2_same [simp]: "ncols (tabulate2 (nrows a) (ncols a) f) = ncols a"
  by (simp add: ncols_tabulate2 ncols_zero_rows)

lemma tabulate2_cong:
  "(\<And>i j. i < r \<Longrightarrow> j < c \<Longrightarrow> f i j = g i j) \<Longrightarrow> tabulate2 r c f = tabulate2 r c g"
  by (simp add: tabulate2_def)

lemma sum_list_upt_cong:
  "(\<And>i. i < n \<Longrightarrow> f i = g i) \<Longrightarrow> (\<Sum>i\<leftarrow>[0..<n]. f i) = (\<Sum>i\<leftarrow>[0..<n]. g i)"
  by (rule arg_cong [where f = sum_list]) simp

lemma wrap_less: "0 < ext \<Longrightarrow> wrap ext kext m j < ext"
  by (simp add: wrap_def nat_less_iff)

lemma wrap_shift:
  assumes "0 < ext"
  shows "nat ((int (wrap ext kext m j) - s) mod int ext) =
   wrap ext kext (nat ((int m - s) mod int ext)) j"
proof -
  let ?c = "int ((kext - 1) div 2)" and ?e = "int ext"
  have e: "0 < ?e" using assms by simp
  have l: "(int (wrap ext kext m j) - s) mod ?e = (int m + ?c - int j - s) mod ?e"
    using e by (simp add: wrap_def mod_diff_left_eq)
  have "(int (nat ((int m - s) mod ?e)) + ?c - int j) mod ?e = (((int m - s) mod ?e) + (?c - int j)) mod ?e"
    using e by (simp add: algebra_simps)
  also have "\<dots> = ((int m - s) + (?c - int j)) mod ?e"
    by (simp only: mod_add_left_eq)
  also have "\<dots> = (int m + ?c - int j - s) mod ?e"
    by (simp add: algebra_simps)
  finally show ?thesis
    unfolding l unfolding wrap_def by simp
qed

lemma cell_tabulate2: "i < r \<Longrightarrow> j < c \<Longrightarrow> tabulate2 r c f ! i ! j = f i j"
  by simp

lemma mod_idx_less: "0 < ext \<Longrightarrow> nat (x mod int ext) < ext"
  by (simp add: nat_less_iff)

section \<open>The optogenetic mask\<close>

lemma np_max_Max: "np_max v vs = Max (set (v # vs))"
  unfolding np_max_def by (rule Max.set_eq_fold [symmetric])

lemma opto_mask:
  assumes hit: "column_tuning os \<in> set (concat om)" and pos: "0 < light_power os"
  shows "opto_generate_input os gs om =
           Return (map (map (\<lambda>v. if v = column_tuning os then 1 else 0)) om)"
proof -
  let ?p = "light_power os"
  let ?f = "\<lambda>v. (if v = column_tuning os then 1 else 0) * ?p"
  let ?opto = "map (map ?f) om"
  have cc: "concat ?opto = map ?f (concat om)"
    by (simp add: map_concat)
  from hit have ne: "concat om \<noteq> []" by (cases "concat om") simp_all
  then obtain v vs where vv: "concat ?opto = v # vs"
    unfolding cc by (cases "concat om") auto
  have setc: "set (v # vs) = ?f ` set (concat om)"
    using vv cc by (metis list.set_map)
  have pin: "?p \<in> set (v # vs)"
    unfolding setc using hit by force
  have ub: "\<And>x. x \<in> set (v # vs) \<Longrightarrow> x \<le> ?p"
    unfolding setc using pos by auto
  have mx: "np_max v vs = ?p"
    unfolding np_max_Max using pin ub by (intro Max_eqI) auto
  have "map (map (\<lambda>x. x / ?p)) ?opto = map (map (\<lambda>v. if v = column_tuning os then 1 else 0)) om"
    using pos by (auto simp: comp_def)
  then show ?thesis
    unfolding opto_generate_input_def Let_def
    using vv mx pos by (simp add: comp_def)
qed

text \<open>
  Claim C10. When at least one cell of the orientation map equals \<open>column_tuning\<close> exactly
  and the power is positive, \<open>OptogeneticStimulus.generate_input\<close> returns the 0/1
  indicator of the matching cells, whatever the positive power is: the maximum of the
  scaled mask is the power, and the division cancels it.
\<close>

theorem opto_generate_input_indicator:
  assumes "column_tuning os \<in> set (concat om)" and "0 < light_power os"
  shows "opto_generate_input os gs om =
           Return (map (map (\<lambda>v. if v = column_tuning os then 1 else 0)) om)
         \<and> (\<forall>p. 0 < p \<longrightarrow>
               opto_generate_input (os\<lparr>light_power := p\<rparr>) gs om =
               opto_generate_input os gs om)"
proof -
  have "opto_generate_input (os\<lparr>light_power := p\<rparr>) gs om =
          Return (map (map (\<lambda>v. if v = column_tuning os then 1 else 0)) om)"
    if "0 < p" for p
    using opto_mask [of "os\<lparr>light_power := p\<rparr>" om gs] assms(1) that by simp
  then show ?thesis
    using opto_mask [OF assms] by simp
qed

theorem opto_generate_input_indicator_witness:
  "opto_generate_input
     \<lparr>column_tuning = 0, num_columns = 10, column_area = 50, light_power = 3\<rparr>
     (2, 2) [[0, 90], [45, 0]] = Return [[1, 0], [0, 1]]
   \<and> opto_generate_input
     \<lparr>column_tuning = 0, num_columns = 10, column_area = 50, light_power = 7\<rparr>
     (2, 2) [[0, 90], [45, 0]] = Return [[1, 0], [0, 1]]"
  using opto_generate_input_indicator
    [of "\<lparr>column_tuning = 0, num_columns = 10, column_area = 50, light_power = 3\<rparr>"
        "[[0, 90], [45, 0]]" "(2, 2)"]
  by simp

section \<open>Periodic convolution and circular shift\<close>

lemma convolve_example:
  "convolve_with_kernel [[1, 2, 3], [4, 5, 6]] [[0, 1], [0, 0]] = [[3, 1, 2], [6, 4, 5]]"
  by (simp add: convolve_with_kernel_def tabulate2_def nrows_def ncols_def wrap_def upt_conv_Cons)

lemma circular_shift_example:
  "circular_shift 1 (- 1) [[1, 2, 3], [4, 5, 6]] = [[5, 6, 4], [2, 3, 1]]"
  by (simp add: circular_shift_def tabulate2_def nrows_def ncols_def upt_conv_Cons)

text \<open>
  Claim C5. For every activity grid, every kernel and every circular shift on the two
  spatial axes, the periodic convolution of the engine commutes with the shift:
  convolving the shifted grid gives the shifted convolution of the grid.
\<close>

theorem convolve_commutes_with_shift:
  "convolve_with_kernel (circular_shift s t a) k =
   circular_shift s t (convolve_with_kernel a k)"
proof -
  let ?R = "nrows a" and ?C = "ncols a"
  let ?sh = "\<lambda>i j. a ! nat ((int i - s) mod int ?R) ! nat ((int j - t) mod int ?C)"
  let ?cv = "\<lambda>b m n. \<Sum>j\<leftarrow>[0..<nrows k]. \<Sum>l\<leftarrow>[0..<ncols k].
                 b ! wrap ?R (nrows k) m j ! wrap ?C (ncols k) n l * (k ! j ! l)"
  have lhs: "convolve_with_kernel (circular_shift s t a) k =
               tabulate2 ?R ?C (?cv (tabulate2 ?R ?C ?sh))"
    unfolding convolve_with_kernel_def circular_shift_def by simp
  have rhs: "circular_shift s t (convolve_with_kernel a k) =
               tabulate2 ?R ?C (\<lambda>i j. tabulate2 ?R ?C (?cv a)
                  ! nat ((int i - s) mod int ?R) ! nat ((int j - t) mod int ?C))"
    unfolding convolve_with_kernel_def circular_shift_def by simp
  have cell: "?cv (tabulate2 ?R ?C ?sh) m n =
              tabulate2 ?R ?C (?cv a) ! nat ((int m - s) mod int ?R) ! nat ((int n - t) mod int ?C)"
    if mR: "m < ?R" and nC: "n < ?C" for m n
  proof -
    from mR nC have R: "0 < ?R" and C: "0 < ?C" by auto
    have "?cv (tabulate2 ?R ?C ?sh) m n =
          ?cv a (nat ((int m - s) mod int ?R)) (nat ((int n - t) mod int ?C))"
    proof (intro sum_list_upt_cong)
      fix j l
      have "tabulate2 ?R ?C ?sh ! wrap ?R (nrows k) m j ! wrap ?C (ncols k) n l =
            ?sh (wrap ?R (nrows k) m j) (wrap ?C (ncols k) n l)"
        by (rule cell_tabulate2) (simp_all add: wrap_less R C)
      then show "tabulate2 ?R ?C ?sh ! wrap ?R (nrows k) m j ! wrap ?C (ncols k) n l * (k ! j ! l) =
            a ! wrap ?R (nrows k) (nat ((int m - s) mod int ?R)) j
              ! wrap ?C (ncols k) (nat ((int n - t) mod int ?C)) l * (k ! j ! l)"
        by (simp only: wrap_shift [OF R] wrap_shift [OF C])
    qed
    also have "\<dots> = tabulate2 ?R ?C (?cv a) ! nat ((int m - s) mod int ?R) ! nat ((int n - t) mod int ?C)"
      by (rule cell_tabulate2 [symmetric]) (simp_all add: mod_idx_less R C)
    finally show ?thesis .
  qed
  show ?thesis
    unfolding lhs rhs by (rule tabulate2_cong) (rule cell)
qed

section \<open>Shapes and signs along the time loop\<close>

lemma has_shape_tabulate2 [simp]: "has_shape r c (tabulate2 r c f)"
  by (simp add: has_shape_def tabulate2_def list_all_iff)


lemma has_shape_ncols: "has_shape r c g \<Longrightarrow> 0 < r \<Longrightarrow> ncols g = c"
  by (cases g) (auto simp: has_shape_def ncols_def)

lemma has_shape_nrows: "has_shape r c g \<Longrightarrow> nrows g = r"
  by (simp add: has_shape_def nrows_def)


lemma bdim_same [simp]: "bdim a a = Some a"
  by (simp add: bdim_def)

lemma bidx_less: "i < n \<Longrightarrow> bidx n i = i"
  by (auto simp: bidx_def)

lemma bcell_shape: "has_shape r c g \<Longrightarrow> i < r \<Longrightarrow> j < c \<Longrightarrow> bcell g i j = g ! i ! j"
  by (simp add: bcell_def has_shape_nrows has_shape_ncols bidx_less)

lemma broadcast2_same_shape:
  assumes "has_shape r c a" "has_shape r c b" "0 < r"
  shows "broadcast2 f a b = Return (tabulate2 r c (\<lambda>i j. f (a ! i ! j) (b ! i ! j)))"
proof -
  have "tabulate2 r c (\<lambda>i j. f (bcell a i j) (bcell b i j)) = tabulate2 r c (\<lambda>i j. f (a ! i ! j) (b ! i ! j))"
    by (rule tabulate2_cong) (simp add: bcell_shape [OF assms(1)] bcell_shape [OF assms(2)])
  then show ?thesis
    using assms by (simp add: broadcast2_def has_shape_nrows has_shape_ncols)
qed



























lemmas eval_defs = visual_generate_input_def tabulate2_def finite_grid_def gabor_cell_def
  opto_generate_input_def np_max_def opto_drive_def apply_opsin_map_def broadcast2_def bdim_def
  bidx_def bcell_def nrows_def ncols_def trial_step_def convolve_with_kernel_def wrap_def
  supralinear_transfer_function_def np_power_def set_slice_def np_zeros_def np_zeros3_def
  linspace_def unit_engine_def dark_visual_def opto_of_power_def

text \<open>The one-cell engine is the engine that the constructor builds on the field \<open>[[0]]\<close>.\<close>

lemma SSNModel_init_unit: "SSNModel_init [[0]] (1, 1) 8 4 1 n = Return (unit_engine n)"
  by (simp add: SSNModel_init_def create_ssn_connectivity_def unnormalized_kernels_def
      unnormalized_kernel_def distances_grid_def similarity_grid_def normalize_kernel_def
      np_sum_def gauss_cell_def deg2rad_def eval_defs)

section \<open>Non-negative activity\<close>

lemma time_bins_2_1: "time_bins 2 1 = Return 2"
  by code_simp




section \<open>The number of time bins\<close>

text \<open>The floats of the literals \<open>0.3\<close> and \<open>0.1\<close>, and their float quotient.\<close>

lemma double_03: "round_double (3 / 10) = 5404319552844595 / 2 ^ 54"
  by code_simp

lemma double_01: "round_double (1 / 10) = 3602879701896397 / 2 ^ 55"
  by code_simp

lemma quotient_03_01:
  "round_double (round_double (3 / 10) / round_double (1 / 10)) = 6755399441055743 / 2 ^ 51"
  by code_simp

lemma quotient_03_01_below_3:
  "round_double (round_double (3 / 10) / round_double (1 / 10)) < 3"
  unfolding quotient_03_01 by simp

lemma time_bins_03_01: "time_bins (round_double (3 / 10)) (round_double (1 / 10)) = Return 2"
  by code_simp

lemma time_bins_12_005: "time_bins (round_double (12 / 10)) (round_double (5 / 100)) = Return 23"
  by code_simp

lemma floor_03_01: "\<lfloor>(3 / 10 :: real) / (1 / 10)\<rfloor> = 3"
  by simp

text \<open>
  Claim C2 says that a trial of duration 0.3 and bin size 0.1 has
  \<open>floor(0.3 / 0.1) = 3\<close> time bins. The floats nearest to 0.3 and 0.1 have the
  binary64 quotient \<open>2.9999999999999996\<close>, which \<open>int\<close> truncates to 2: the trial of
  \<open>main.py\<close> (300 ms in bins of 100 ms) has two time bins, and the \<open>TIME_BINS\<close> of
  \<open>config.py\<close> (1.2 s in bins of 0.05 s) is 23 beside its \<open>num_frames\<close> of 24.
\<close>

theorem run_trial_300ms_100ms_two_bins:
  "time_bins (round_double (3 / 10)) (round_double (1 / 10)) = Return 2
   \<and> run_trial (unit_engine 2) dark_visual (opto_of_power 0)
         (round_double (3 / 10)) (round_double (1 / 10)) None = Return [[[0, 0]]]"
  unfolding run_trial_def time_bins_03_01
  by (simp add: eval_defs numeral_2_eq_2)

section \<open>Trials of less than one time bin\<close>

lemma time_bins_half_1: "time_bins (1 / 2) 1 = Return 0"
  by code_simp

lemma time_bins_quarter_1: "time_bins (1 / 4) 1 = Return 0"
  by code_simp

lemma time_bins_neg: "time_bins (- 1) 1 = Return (- 1)"
  by code_simp

text \<open>
  Claim C7 as stated fails: with \<open>floor(duration / bin_size) < 1\<close> the trial of duration
  0.5 and bin size 1 is not rejected; it returns a trace without time bins.
\<close>

theorem run_trial_zero_bins_not_rejected:
  "\<lfloor>(1 / 2 :: real) / 1\<rfloor> < 1
   \<and> run_trial (unit_engine 2) dark_visual (opto_of_power 0) (1 / 2) 1 None = Return [[[]]]"
  unfolding run_trial_def time_bins_half_1
  by (simp add: eval_defs)

text \<open>
  Claim C7, amended. \<open>run_trial\<close> does not validate the number of time bins. When the
  quotient truncates to 0, the stimulus frames are generated and, if that succeeds, the
  trace of zero time bins is returned without any step; when it truncates to a negative
  number, the allocation of the trace raises ValueError before the frames are generated.
\<close>

theorem run_trial_below_one_bin:
  assumes "time_bins d b = Return tb" and "tb < 1"
  shows "(tb < 0 \<longrightarrow> run_trial self vs os d b opsin = Raise ValueError)
       \<and> (tb = 0 \<longrightarrow> visual_generate_input vs (grid_size self) = Return v \<longrightarrow>
            opto_drive self os opsin = Return ou \<longrightarrow>
            run_trial self vs os d b opsin =
              Return (np_zeros3 (fst (grid_size self)) (snd (grid_size self)) 0))"
  using assms by (simp add: run_trial_def)

theorem run_trial_below_one_bin_witness:
  "run_trial (unit_engine 2) dark_visual (opto_of_power 0) (- 1) 1 None = Raise ValueError
   \<and> run_trial (unit_engine 2) dark_visual (opto_of_power 0) (1 / 4) 1 None = Return [[[]]]"
proof -
  have v: "visual_generate_input dark_visual (grid_size (unit_engine 2)) = Return [[0]]"
    by (simp add: eval_defs)
  have ou: "opto_drive (unit_engine 2) (opto_of_power 0) None = Return [[0]]"
    by (simp add: eval_defs)
  show ?thesis
    using run_trial_below_one_bin [OF time_bins_neg, where self = "unit_engine 2" and vs = dark_visual and os = "opto_of_power 0" and opsin = None]
      run_trial_below_one_bin [OF time_bins_quarter_1, where self = "unit_engine 2" and vs = dark_visual and os = "opto_of_power 0" and opsin = None and v = "[[0]]" and ou = "[[0]]"]
      v ou
    by (simp add: eval_defs)
qed

section \<open>Connectivity kernels\<close>

lemma np_sum_tabulate2: "np_sum (tabulate2 r c f) = (\<Sum>i<r. \<Sum>j<c. f i j)"
  by (simp add: np_sum_def tabulate2_def comp_def interv_sum_list_conv_sum_set_nat atLeast0LessThan)




lemma normalize_kernel_returns:
  "np_sum k \<noteq> 0 \<Longrightarrow> \<exists>e. normalize_kernel k = Return e"
  by (simp add: normalize_kernel_def)

lemma finite_grid_tabulate2:
  "finite_grid (tabulate2 r c (\<lambda>i j. Some (f i j))) = Return (tabulate2 r c f)"
  by (simp add: finite_grid_def tabulate2_def list_all_iff comp_def)

lemma gauss_grid:
  assumes "sigma \<noteq> 0"
  shows "finite_grid (map (map (gauss_cell sigma)) (tabulate2 r c d)) =
         Return (tabulate2 r c (\<lambda>i j. exp (- (d i j)\<^sup>2 / (2 * sigma\<^sup>2))))"
proof -
  have "map (map (gauss_cell sigma)) (tabulate2 r c d) =
        tabulate2 r c (\<lambda>i j. Some (exp (- (d i j)\<^sup>2 / (2 * sigma\<^sup>2))))"
    using assms by (simp add: tabulate2_def gauss_cell_def comp_def)
  then show ?thesis by (simp add: finite_grid_tabulate2)
qed

lemma similarity_shape: "has_shape r c om \<Longrightarrow> has_shape r c (similarity_grid om)"
  by (simp add: similarity_grid_def has_shape_def list_all_iff Let_def)

lemma similarity_cell:
  "i < length om \<Longrightarrow> j < length (om ! i) \<Longrightarrow>
   similarity_grid om ! i ! j =
     (cos (deg2rad \<bar>om ! i ! j - om ! (nrows om div 2) ! (ncols om div 2)\<bar>))\<^sup>2"
  by (simp add: similarity_grid_def Let_def)

lemma unnormalized_kernel_square:
  assumes sh: "has_shape n n om" and n: "0 < n" and s: "sigma \<noteq> 0"
  shows "unnormalized_kernel sigma (distances_grid (nrows om) (ncols om)) (similarity_grid om) =
         Return (tabulate2 n n (kernel_cell om sigma))"
proof -
  have r: "nrows om = n" and c: "ncols om = n"
    using sh n by (simp_all add: has_shape_nrows has_shape_ncols)
  let ?g = "tabulate2 n n (\<lambda>i j. exp (- (sqrt ((real j - real (n div 2))\<^sup>2 + (real i - real (n div 2))\<^sup>2))\<^sup>2 / (2 * sigma\<^sup>2)))"
  have g: "finite_grid (map (map (gauss_cell sigma)) (distances_grid n n)) = Return ?g"
    unfolding distances_grid_def by (rule gauss_grid [OF s])
  have "tabulate2 n n (\<lambda>i j. ?g ! i ! j * similarity_grid om ! i ! j) = tabulate2 n n (kernel_cell om sigma)"
  proof (rule tabulate2_cong)
    fix i j assume ij: "i < n" "j < n"
    then have "i < length om" "j < length (om ! i)"
      using sh by (simp_all add: has_shape_def list_all_length)
    then show "?g ! i ! j * similarity_grid om ! i ! j = kernel_cell om sigma i j"
      using ij by (simp add: similarity_cell kernel_cell_def r c)
  qed
  then have "broadcast2 (*) ?g (similarity_grid om) = Return (tabulate2 n n (kernel_cell om sigma))"
    using broadcast2_same_shape [OF has_shape_tabulate2 similarity_shape [OF sh] n, of "(*)" "\<lambda>i j. exp (- (sqrt ((real j - real (n div 2))\<^sup>2 + (real i - real (n div 2))\<^sup>2))\<^sup>2 / (2 * sigma\<^sup>2))"]
    by simp
  then show ?thesis
    unfolding unnormalized_kernel_def r c g by simp
qed

lemma kernel_cell_bounds:
  assumes "sigma \<noteq> 0"
  shows "0 \<le> kernel_cell om sigma i j" and "kernel_cell om sigma i j \<le> 1"
proof -
  let ?e = "exp (- (sqrt ((real j - real (nrows om div 2))\<^sup>2 + (real i - real (ncols om div 2))\<^sup>2))\<^sup>2
            / (2 * sigma\<^sup>2))"
  let ?c = "(cos (deg2rad \<bar>om ! i ! j - om ! (nrows om div 2) ! (ncols om div 2)\<bar>))\<^sup>2"
  have "- (sqrt ((real j - real (nrows om div 2))\<^sup>2 + (real i - real (ncols om div 2))\<^sup>2))\<^sup>2
            / (2 * sigma\<^sup>2) \<le> 0"
    by (intro divide_nonpos_nonneg) simp_all
  then have e: "0 \<le> ?e" "?e \<le> 1" by simp_all
  have c: "0 \<le> ?c" "?c \<le> 1" by (simp_all add: abs_square_le_1)
  show "0 \<le> kernel_cell om sigma i j"
    unfolding kernel_cell_def using e(1) c(1) by (rule mult_nonneg_nonneg)
  show "kernel_cell om sigma i j \<le> 1"
    unfolding kernel_cell_def using mult_mono [OF e(2) c(2) _ c(1)] by simp
qed

lemma kernel_cell_centre:
  assumes "sigma \<noteq> 0" and "nrows om = ncols om"
  shows "kernel_cell om sigma (nrows om div 2) (nrows om div 2) = 1"
  using assms by (simp add: kernel_cell_def deg2rad_def)


lemma unnormalized_kernels_square:
  assumes "has_shape n n om" and "0 < n" and "se \<noteq> 0" and "si \<noteq> 0"
  shows "unnormalized_kernels om se si =
         Return (tabulate2 n n (kernel_cell om se), tabulate2 n n (kernel_cell om si))"
proof -
  have r: "nrows om = n" and c: "ncols om = n"
    using assms by (simp_all add: has_shape_nrows has_shape_ncols)
  show ?thesis
    unfolding unnormalized_kernels_def
    using unnormalized_kernel_square [OF assms(1,2,3)] unnormalized_kernel_square [OF assms(1,2,4)]
      assms(2)
    by (simp add: r c)
qed

lemma kernel_sum_ge_1:
  assumes "has_shape n n om" and "0 < n" and s: "sigma \<noteq> 0"
  shows "1 \<le> np_sum (tabulate2 n n (kernel_cell om sigma))"
proof -
  let ?c = "n div 2"
  have sq: "nrows om = ncols om" and r: "nrows om = n"
    using assms by (simp_all add: has_shape_nrows has_shape_ncols)
  have c: "?c < n" using assms(2) by simp
  have "1 = kernel_cell om sigma ?c ?c"
    using kernel_cell_centre [OF s sq] r by simp
  also have "\<dots> \<le> (\<Sum>j<n. kernel_cell om sigma ?c j)"
    using c by (intro member_le_sum) (simp_all add: kernel_cell_bounds(1) [OF s])
  also have "\<dots> \<le> (\<Sum>i<n. \<Sum>j<n. kernel_cell om sigma i j)"
    using c by (intro member_le_sum [where f = "\<lambda>i. \<Sum>j<n. kernel_cell om sigma i j"])
      (simp_all add: sum_nonneg kernel_cell_bounds(1) [OF s])
  finally show ?thesis by (simp add: np_sum_tabulate2)
qed

lemma create_ssn_connectivity_square:
  assumes "has_shape n n om" and "0 < n" and "se \<noteq> 0" and "si \<noteq> 0"
  shows "\<exists>e i. create_ssn_connectivity om se si = Return (e, i)"
proof -
  have "np_sum (tabulate2 n n (kernel_cell om se)) \<noteq> 0"
    using kernel_sum_ge_1 [OF assms(1,2,3)] by simp
  moreover have "np_sum (tabulate2 n n (kernel_cell om si)) \<noteq> 0"
    using kernel_sum_ge_1 [OF assms(1,2,4)] by simp
  ultimately show ?thesis
    unfolding create_ssn_connectivity_def unnormalized_kernels_square [OF assms]
    by (simp add: normalize_kernel_def)
qed


text \<open>
  The normalization has no guard: a zero sum would give NaN or infinities, not an
  exception. On a field that is not square and has no extent 1, the product of the
  Gaussian and the similarity cannot be broadcast.
\<close>

lemma normalize_kernel_zero_sum: "np_sum k = 0 \<Longrightarrow> normalize_kernel k = NonFinite"
  by (simp add: normalize_kernel_def)

lemma create_ssn_connectivity_not_square:
  assumes sh: "has_shape r c om" and "1 < r" and "1 < c" and "r \<noteq> c" and "se \<noteq> 0"
  shows "create_ssn_connectivity om se si = Raise ValueError"
proof -
  have rc: "nrows om = r" "ncols om = c"
    using assms by (simp_all add: has_shape_nrows has_shape_ncols)
  have g: "finite_grid (map (map (gauss_cell se)) (distances_grid r c)) =
        Return (tabulate2 c r (\<lambda>i j. exp (- (sqrt ((real j - real (r div 2))\<^sup>2 + (real i - real (c div 2))\<^sup>2))\<^sup>2 / (2 * se\<^sup>2))))"
    unfolding distances_grid_def by (rule gauss_grid [OF assms(5)])
  have "nrows (similarity_grid om) = r"
    using similarity_shape [OF sh] by (rule has_shape_nrows)
  then have "unnormalized_kernel se (distances_grid r c) (similarity_grid om) = Raise ValueError"
    unfolding unnormalized_kernel_def g using assms(2-4)
    by (simp add: broadcast2_def bdim_def)
  then show ?thesis
    using assms(2,3)
    by (simp add: create_ssn_connectivity_def unnormalized_kernels_def rc)
qed





section \<open>Zero drive\<close>

lemma has_shape_zeros [simp]: "has_shape w h (np_zeros w h)"
  by (simp add: np_zeros_def)

lemma zeros_cell [simp]: "i < w \<Longrightarrow> j < h \<Longrightarrow> np_zeros w h ! i ! j = 0"
  by (simp add: np_zeros_def)

lemma nrows_zeros [simp]: "nrows (np_zeros w h) = w"
  by (simp add: np_zeros_def)

lemma ncols_zeros [simp]: "0 < w \<Longrightarrow> ncols (np_zeros w h) = h"
  by (simp add: np_zeros_def ncols_tabulate2)

lemma sum_list_zeros: "(\<And>i. i < n \<Longrightarrow> f i = 0) \<Longrightarrow> (\<Sum>i\<leftarrow>[0..<n]. f i) = (0::real)"
  by (induction n) simp_all

lemma convolve_zeros:
  assumes "0 < w"
  shows "convolve_with_kernel (np_zeros w h) k = np_zeros w h"
proof -
  have "tabulate2 w h (\<lambda>m n. \<Sum>j\<leftarrow>[0..<nrows k]. \<Sum>l\<leftarrow>[0..<ncols k].
            np_zeros w h ! wrap w (nrows k) m j ! wrap h (ncols k) n l * (k ! j ! l))
        = tabulate2 w h (\<lambda>m n. 0)"
  proof (rule tabulate2_cong)
    fix m n assume "m < w" "n < h"
    then have "np_zeros w h ! wrap w (nrows k) m j ! wrap h (ncols k) n l = 0" for j l
      by (simp add: wrap_less)
    then show "(\<Sum>j\<leftarrow>[0..<nrows k]. \<Sum>l\<leftarrow>[0..<ncols k].
            np_zeros w h ! wrap w (nrows k) m j ! wrap h (ncols k) n l * (k ! j ! l)) = 0"
      by (simp add: sum_list_zeros)
  qed
  then show ?thesis
    unfolding convolve_with_kernel_def using assms by (simp add: np_zeros_def [symmetric])
qed

lemma broadcast2_zeros:
  assumes "0 < w" and "f 0 0 = 0"
  shows "broadcast2 f (np_zeros w h) (np_zeros w h) = Return (np_zeros w h)"
proof -
  have "tabulate2 w h (\<lambda>i j. f (np_zeros w h ! i ! j) (np_zeros w h ! i ! j)) = tabulate2 w h (\<lambda>i j. 0)"
    by (rule tabulate2_cong) (simp add: assms(2))
  then show ?thesis
    using broadcast2_same_shape [of w h "np_zeros w h" "np_zeros w h" f] assms(1)
    by (simp add: np_zeros_def [symmetric])
qed

lemma transfer_zeros:
  assumes "0 < exponent self"
  shows "supralinear_transfer_function self (np_zeros w h) = Return (np_zeros w h)"
  using assms
  by (simp add: supralinear_transfer_function_def np_zeros_def tabulate2_def finite_grid_def
      np_power_def list_all_iff comp_def)

lemma set_slice_zeros:
  assumes "0 < w"
  shows "set_slice (w, h) (np_zeros3 w h n) t (np_zeros w h) = Return (np_zeros3 w h n)"
proof -
  have "tabulate2 w h (\<lambda>x y. (np_zeros3 w h n ! x ! y)[t := bcell (np_zeros w h) x y])
        = tabulate2 w h (\<lambda>x y. replicate n 0)"
  proof (rule tabulate2_cong)
    fix x y assume xy: "x < w" "y < h"
    then have "bcell (np_zeros w h) x y = 0"
      using bcell_shape [OF has_shape_zeros xy] by simp
    moreover have "np_zeros3 w h n ! x ! y = replicate n 0"
      using xy by (simp add: np_zeros3_def)
    moreover have "(replicate n (0::real))[t := 0] = replicate n 0"
      by (cases "t < n") (simp_all add: list_update_same_conv list_update_beyond)
    ultimately show "(np_zeros3 w h n ! x ! y)[t := bcell (np_zeros w h) x y] = replicate n 0"
      by simp
  qed
  then show ?thesis
    using assms by (simp add: set_slice_def np_zeros3_def)
qed

lemma trial_step_zeros:
  assumes "0 < exponent self" "grid_size self = (w, h)" "0 < w"
  shows "trial_step self (np_zeros w h) (np_zeros w h) t (np_zeros w h, np_zeros3 w h n)
         = Return (np_zeros w h, np_zeros3 w h n)"
  unfolding trial_step_def
  using assms
  by (simp add: convolve_zeros broadcast2_zeros transfer_zeros set_slice_zeros)

lemma trial_loop_zeros:
  assumes "0 < exponent self" "grid_size self = (w, h)" "0 < w"
  shows "trial_loop self (np_zeros w h) (np_zeros w h) k t (np_zeros w h, np_zeros3 w h n)
         = Return (np_zeros3 w h n)"
  by (induction k arbitrary: t) (simp_all add: trial_step_zeros [OF assms])

text \<open>
  Claim C1, amended. For every kernel pair, every exponent \<open>n > 0\<close> and all-zero visual
  and optogenetic frames, \<open>run_trial\<close> from the all-zero state returns the trace that is
  zero at every cell of every time bin; the number of time bins is the one that
  \<open>time_bins\<close> computes.
\<close>

theorem zero_drive_stays_zero:
  assumes "0 < exponent self" and "grid_size self = (w, h)" and "0 < w"
    and "visual_generate_input vs (w, h) = Return (np_zeros w h)"
    and "opto_drive self os opsin = Return (np_zeros w h)"
    and "time_bins d b = Return tb" and "0 \<le> tb"
  shows "run_trial self vs os d b opsin = Return (np_zeros3 w h (nat tb))"
  using assms by (simp add: run_trial_def trial_loop_zeros)

lemma visual_zero_contrast:
  assumes "contrast vs = 0" and "stim_size vs \<noteq> 0"
  shows "visual_generate_input vs (r, c) = Return (np_zeros r c)"
proof -
  have "tabulate2 r c (\<lambda>i j. gabor_cell vs (linspace c j) (linspace r i)) =
        tabulate2 r c (\<lambda>i j. Some 0)"
    using assms by (simp add: gabor_cell_def Let_def)
  then show ?thesis
    by (simp add: visual_generate_input_def finite_grid_tabulate2 np_zeros_def)
qed

lemma map_const_zeros:
  assumes "has_shape w h om"
  shows "map (map (\<lambda>v. 0)) om = np_zeros w h"
proof -
  have "length om = w" "\<And>i. i < w \<Longrightarrow> length (om ! i) = h"
    using assms by (simp_all add: has_shape_def list_all_length)
  then show ?thesis
    by (simp add: np_zeros_def tabulate2_def list_eq_iff_nth_eq)
qed

lemma np_max_zeros: "set (v # vs) \<subseteq> {0} \<Longrightarrow> np_max v vs = 0"
  unfolding np_max_Max by (intro Max_eqI) auto

lemma opto_zero_power:
  assumes p: "light_power os = 0" and sh: "has_shape w h om" and "0 < w" and "0 < h"
  shows "opto_generate_input os gs om = Return (np_zeros w h)"
proof -
  let ?opto = "map (map (\<lambda>b. b * light_power os))
                 (map (map (\<lambda>v. if v = column_tuning os then 1 else 0)) om)"
  have z: "?opto = np_zeros w h"
    using map_const_zeros [OF sh] by (simp add: p comp_def)
  have "concat (np_zeros w h) \<noteq> []"
    using assms(3,4) by (cases w; cases h) (simp_all add: np_zeros_def tabulate2_def upt_conv_Cons del: upt_Suc)
  then obtain v vs where vv: "concat (np_zeros w h) = v # vs"
    by (cases "concat (np_zeros w h)") auto
  have "set (concat (np_zeros w h)) \<subseteq> {0}"
    by (auto simp: np_zeros_def tabulate2_def)
  then have "np_max v vs = 0"
    unfolding vv by (rule np_max_zeros)
  then show ?thesis
    unfolding opto_generate_input_def Let_def z vv by simp
qed

lemma SSNModel_init_square:
  assumes "has_shape n n om" and "0 < n" and "se \<noteq> 0" and "si \<noteq> 0"
  shows "\<exists>m. SSNModel_init om sz se si al ex = Return m
             \<and> exponent m = ex \<and> grid_size m = sz \<and> orientation_map m = om"
proof -
  from create_ssn_connectivity_square [OF assms]
  obtain e i where "create_ssn_connectivity om se si = Return (e, i)" by blast
  then show ?thesis by (simp add: SSNModel_init_def)
qed

text \<open>
  The end-to-end configuration: orientation field constant 0 on 8 by 8 cells, spreads 2
  and 1, exponent 2, contrast 0, power 0, duration 0.3 and bin size 0.1. The trace is
  all-zero, with the two time bins of this time configuration.
\<close>

theorem zero_drive_stays_zero_witness:
  "\<exists>m. SSNModel_init (np_zeros 8 8) (8, 8) 2 1 1 2 = Return m
      \<and> run_trial m dark_visual (opto_of_power 0) (round_double (3 / 10)) (round_double (1 / 10)) None
          = Return (np_zeros3 8 8 2)"
proof -
  from SSNModel_init_square [of 8 "np_zeros 8 8" 2 1 "(8, 8)" 1 2]
  obtain m where m: "SSNModel_init (np_zeros 8 8) (8, 8) 2 1 1 2 = Return m"
    "exponent m = 2" "grid_size m = (8, 8)" "orientation_map m = np_zeros 8 8"
    by auto
  have v: "visual_generate_input dark_visual (8, 8) = Return (np_zeros 8 8)"
    by (rule visual_zero_contrast) (simp_all add: dark_visual_def)
  have "opto_generate_input (opto_of_power 0) (8, 8) (np_zeros 8 8) = Return (np_zeros 8 8)"
    by (rule opto_zero_power) (simp_all add: opto_of_power_def)
  then have ou: "opto_drive m (opto_of_power 0) None = Return (np_zeros 8 8)"
    by (simp add: opto_drive_def m)
  from zero_drive_stays_zero [OF _ m(3) _ v ou time_bins_03_01] m(2)
  have "run_trial m dark_visual (opto_of_power 0) (round_double (3 / 10)) (round_double (1 / 10)) None
          = Return (np_zeros3 8 8 2)"
    by simp
  with m(1) show ?thesis by blast
qed

text \<open>
  Claim C1 as stated fails for the exponent 0: numpy's \<open>0 ** 0\<close> is 1, so with all-zero
  frames and all-zero initial state the trace is 1 in every time bin.
\<close>

theorem zero_drive_exponent_zero:
  "visual_generate_input dark_visual (grid_size (unit_engine 0)) = Return [[0]]
   \<and> opto_drive (unit_engine 0) (opto_of_power 0) None = Return [[0]]
   \<and> run_trial (unit_engine 0) dark_visual (opto_of_power 0) 2 1 None = Return [[[1, 1]]]"
  unfolding run_trial_def time_bins_2_1
  by (simp add: eval_defs numeral_2_eq_2)

section \<open>Determinism\<close>







end
